theory Spec2Isabelle
  imports Main "HOL-Library.Word"
begin

section \<open>Bytes, scripts and JavaScript array primitives\<close>

type_synonym byte = "8 word"
type_synonym bytes = "byte list"

text \<open>
  \<open>array[i]\<close> on a JavaScript array or \<open>Uint8Array\<close>: \<open>undefined\<close> (here \<open>None\<close>)
  outside the array, the element otherwise.
\<close>

definition js_index :: "'a list \<Rightarrow> int \<Rightarrow> 'a option" where
  "js_index xs i = (if 0 \<le> i \<and> i < int (length xs) then Some (xs ! nat i) else None)"

text \<open>
  \<open>array.slice(begin, end)\<close>: a negative index counts from the end, and both indices
  are clamped to the array.
\<close>

definition js_relative :: "nat \<Rightarrow> int \<Rightarrow> nat" where
  "js_relative len i = (if i < 0 then nat (max (int len + i) 0) else min (nat i) len)"

definition js_slice :: "'a list \<Rightarrow> int \<Rightarrow> int \<Rightarrow> 'a list" where
  "js_slice xs b e =
     (let from = js_relative (length xs) b; to = js_relative (length xs) e
      in take (to - from) (drop from xs))"

text \<open>
  \<open>array.pop()\<close>: the removed last element (\<open>undefined\<close> on an empty array) and the
  array that is left.
\<close>

definition js_pop :: "'a list \<Rightarrow> 'a option \<times> 'a list" where
  "js_pop xs = (if xs = [] then (None, []) else (Some (last xs), butlast xs))"

text \<open>
  \<open>array.splice(start)\<close> with one argument removes everything from the relative start
  index to the end: the pair is (removed elements, array that is left). The source calls
  it as \<open>splice(-n)\<close>; for \<open>n = 0\<close> the argument is \<open>-0\<close>, which is the index 0.
\<close>

definition js_splice :: "'a list \<Rightarrow> int \<Rightarrow> 'a list \<times> 'a list" where
  "js_splice xs start =
     (let from = js_relative (length xs) start in (drop from xs, take from xs))"

section \<open>Opcodes\<close>

text \<open>
  Modelled from the spec: the enum \<open>BitcoinCashOpCodes\<close> (bitcoin-cash-opcodes.ts) is
  not among the sources. The values are those of section 3 of the specification and of
  the Bitcoin Cash wire format.
\<close>

definition OP_PUSHBYTES_20 :: byte where "OP_PUSHBYTES_20 = 0x14"
definition OP_PUSHDATA1 :: byte where "OP_PUSHDATA1 = 0x4c"
definition OP_1 :: byte where "OP_1 = 0x51"
definition OP_16 :: byte where "OP_16 = 0x60"
definition OP_EQUAL :: byte where "OP_EQUAL = 0x87"
definition OP_HASH160 :: byte where "OP_HASH160 = 0xa9"

text \<open>\<open>OP_PUSHBYTES_N\<close> is the byte \<open>N\<close>, for \<open>N\<close> from 1 to 75.\<close>

definition OP_PUSHBYTES :: "nat \<Rightarrow> byte" where
  "OP_PUSHBYTES n = of_nat n"

section \<open>Errors and program state\<close>

text \<open>
  The members of \<open>CommonAuthenticationError\<close> that push.ts and crypto.ts name, and the
  one member of \<open>BitcoinCashAuthenticationError\<close>. A state's error is of the union of
  the two enums.
\<close>

datatype CommonAuthenticationError =
    emptyStack
  | malformedPush
  | nonMinimalPush
  | exceedsMaximumPush
  | invalidPublicKeyEncoding
  | invalidSignatureEncoding
  | invalidNaturalNumber
  | exceedsMaximumMultisigPublicKeyCount
  | insufficientPublicKeys
  | invalidProtocolBugValue
  | exceededMaximumOperationCount

datatype BitcoinCashAuthenticationError =
    bch_exceededMaximumOperationCount

datatype authentication_error =
    Common CommonAuthenticationError
  | BitcoinCash BitcoinCashAuthenticationError

record external_state =
  version :: nat
  transactionOutpointsHash :: bytes
  transactionSequenceNumbersHash :: bytes
  outpointTransactionHash :: bytes
  correspondingOutputHash :: bytes
  transactionOutputsHash :: bytes
  outpointIndex :: nat
  outpointValue :: nat
  sequenceNumber :: nat
  locktime :: nat
  blockHeight :: nat
  blockTime :: nat

record program_state = external_state +
  ip :: int
  lastCodeSeparator :: int
  operationCount :: nat
  operations :: "byte list"
  script :: bytes
  stack :: "bytes list"
  error :: "authentication_error option"

record authentication_program =
  lockingScript :: bytes
  unlockingScript :: bytes
  state :: external_state

text \<open>
  Modelled from the spec: \<open>applyError\<close> (common.ts) is not among the sources. Section
  4.7: it sets \<open>error\<close> to the given kind and leaves every other field as it is.
\<close>

definition applyError :: "authentication_error \<Rightarrow> program_state \<Rightarrow> program_state" where
  "applyError kind s = s\<lparr>error := Some kind\<rparr>"

definition maximumOperationCount :: nat where
  "maximumOperationCount = 201"

section \<open>The Bitcoin Cash instruction set (bitcoin-cash.ts)\<close>

text \<open>
  The \<open>before\<close> hook: increment \<open>ip\<close>, read the byte there; when there is one, count
  it, fail above the limit, and record it otherwise.
\<close>

definition before :: "program_state \<Rightarrow> program_state" where
  "before s =
     (let s1 = s\<lparr>ip := ip s + 1\<rparr> in
      case js_index (script s1) (ip s1) of
        None \<Rightarrow> s1
      | Some operation \<Rightarrow>
          (let s2 = s1\<lparr>operationCount := operationCount s1 + 1\<rparr> in
           if operationCount s2 > maximumOperationCount
           then applyError (BitcoinCash bch_exceededMaximumOperationCount) s2
           else s2\<lparr>operations := operations s2 @ [operation]\<rparr>))"

definition continue :: "program_state \<Rightarrow> bool" where
  "continue s = (error s = None \<and> ip s < int (length (script s)))"

definition isPayToScriptHash :: "bytes \<Rightarrow> bool" where
  "isPayToScriptHash ls =
     (length ls = 23 \<and> js_index ls 0 = Some OP_HASH160
      \<and> js_index ls 1 = Some OP_PUSHBYTES_20 \<and> js_index ls 22 = Some OP_EQUAL)"

definition isPushOnly :: "byte list \<Rightarrow> bool" where
  "isPushOnly ops = list_all (\<lambda>v. v < OP_16) ops"

definition createBitcoinCashProgramState ::
  "authentication_program \<Rightarrow> bytes \<Rightarrow> bytes list \<Rightarrow> program_state" where
  "createBitcoinCashProgramState program scr stk =
     \<lparr> version = version (state program),
       transactionOutpointsHash = transactionOutpointsHash (state program),
       transactionSequenceNumbersHash = transactionSequenceNumbersHash (state program),
       outpointTransactionHash = outpointTransactionHash (state program),
       correspondingOutputHash = correspondingOutputHash (state program),
       transactionOutputsHash = transactionOutputsHash (state program),
       outpointIndex = outpointIndex (state program),
       outpointValue = outpointValue (state program),
       sequenceNumber = sequenceNumber (state program),
       locktime = locktime (state program),
       blockHeight = blockHeight (state program),
       blockTime = blockTime (state program),
       ip = 0,
       lastCodeSeparator = - 1,
       operationCount = 0,
       operations = [],
       script = scr,
       stack = stk,
       error = None \<rparr>"

text \<open>
  \<open>validateBitcoinCashAuthenticationProgramState\<close>. The helper \<open>stackElementIsTruthy\<close>
  (common.ts) is not among the sources and is a parameter here.
\<close>

definition validateBitcoinCashAuthenticationProgramState ::
  "(bytes \<Rightarrow> bool) \<Rightarrow> program_state \<Rightarrow> bool" where
  "validateBitcoinCashAuthenticationProgramState stackElementIsTruthy s =
     (error s \<noteq> None \<and> length (stack s) = 1 \<and> stackElementIsTruthy (stack s ! 0))"

section \<open>Push operators (push.ts)\<close>

text \<open>
  \<open>opPushDataConstant(value).operation\<close>: the push runs from \<open>state.ip\<close> to
  \<open>state.ip + value\<close>; a script shorter than the end of the push is a malformed push;
  otherwise the slice is pushed and \<open>ip\<close> becomes the end of the push.
\<close>

definition opPushDataConstant :: "nat \<Rightarrow> program_state \<Rightarrow> program_state" where
  "opPushDataConstant val s =
     (let pushStart = ip s; pushEnd = ip s + int val in
      if int (length (script s)) < pushEnd
      then applyError (Common malformedPush) s
      else s\<lparr>stack := stack s @ [js_slice (script s) pushStart pushEnd], ip := pushEnd\<rparr>)"

datatype Uint = Uint8 | Uint16 | Uint32

definition uint_width :: "Uint \<Rightarrow> nat" where
  "uint_width ty = (case ty of Uint8 \<Rightarrow> 1 | Uint16 \<Rightarrow> 2 | Uint32 \<Rightarrow> 4)"

fun little_endian :: "bytes \<Rightarrow> nat" where
  "little_endian [] = 0"
| "little_endian (b # bs) = unat b + 256 * little_endian bs"

text \<open>
  \<open>readLittleEndianLength\<close>: a \<open>DataView\<close> of \<open>lengthBits\<close> bytes at byte offset \<open>ip\<close>
  of the script's buffer, read as an unsigned little-endian number of the type's width.
  The script is taken to fill its buffer from offset 0. \<open>None\<close> is the \<open>RangeError\<close>
  that the \<open>DataView\<close> throws when the view does not fit the buffer or the read does
  not fit the view.
\<close>

definition readLittleEndianLength :: "bytes \<Rightarrow> int \<Rightarrow> nat \<Rightarrow> Uint \<Rightarrow> nat option" where
  "readLittleEndianLength scr i lengthBits ty =
     (if i < 0 \<or> int (length scr) < i + int lengthBits \<or> lengthBits < uint_width ty
      then None
      else Some (little_endian (take (uint_width ty) (drop (nat i) scr))))"

text \<open>
  \<open>createPushDataOperator(lengthBits, type, minimum, maximum).operation\<close>, with the
  source's order of checks. \<open>None\<close> is an exception escaping the operation.
\<close>

definition createPushDataOperator ::
  "nat \<Rightarrow> Uint \<Rightarrow> nat \<Rightarrow> nat \<Rightarrow> program_state \<Rightarrow> program_state option" where
  "createPushDataOperator lengthBits ty minimum maximum s =
     (let pushBegin = ip s + int lengthBits in
      if int (length (script s)) < pushBegin
      then Some (applyError (Common malformedPush) s)
      else case readLittleEndianLength (script s) (ip s) lengthBits ty of
        None \<Rightarrow> None
      | Some len \<Rightarrow>
          if int (length (script s)) < pushBegin + int len
          then Some (applyError (Common malformedPush) s)
          else if len < minimum
          then Some (applyError (Common nonMinimalPush) s)
          else if len > maximum
          then Some (applyError (Common exceedsMaximumPush) s)
          else (let pushEnd = pushBegin + int len in
                Some (s\<lparr>stack := stack s @ [js_slice (script s) pushBegin pushEnd],
                        ip := pushEnd\<rparr>)))"

definition maximumPushDataConstant :: nat where
  "maximumPushDataConstant = 75"

definition maximumPushSize :: nat where
  "maximumPushSize = 520"

definition opPushData1 :: "program_state \<Rightarrow> program_state option" where
  "opPushData1 = createPushDataOperator 1 Uint8 maximumPushDataConstant maximumPushSize"

section \<open>\<open>OP_CHECKMULTISIG\<close> (crypto.ts)\<close>

text \<open>
  What crypto.ts imports from files that are not among the sources, and the providers it
  is given, are parameters of the operator: \<open>parseBytesAsScriptNumber\<close> (\<open>None\<close> is a
  script-number error), the two encoding checks, and \<open>verifySignature state signature
  publicKey\<close>, which stands for decoding the signature, building the signing
  serialization from the state and the script code, hashing it twice and calling
  \<open>secp256k1.verifySignatureDERLowS\<close>.
\<close>

record collaborators =
  parseBytesAsScriptNumber :: "bytes \<Rightarrow> int option"
  isValidPublicKeyEncoding :: "bytes \<Rightarrow> bool"
  isValidSignatureEncoding :: "bytes \<Rightarrow> bool"
  verifySignature :: "program_state \<Rightarrow> bytes \<Rightarrow> bytes \<Rightarrow> bool"

text \<open>
  Modelled from the spec: \<open>booleanToScriptNumber\<close> (common.ts) is not among the sources.
  Section 4.1: true is the element \<open>0x01\<close>, false the empty element.
\<close>

definition booleanToScriptNumber :: "bool \<Rightarrow> bytes" where
  "booleanToScriptNumber b = (if b then [1] else [])"

definition maximumPublicKeys :: int where
  "maximumPublicKeys = 20"

text \<open>
  The \<open>while\<close> loop of the operator, on its three counters. The result is the error of
  an early return, or the counters \<open>(approvingPublicKeys, remainingSignatures,
  remainingPublicKeys)\<close> when the loop condition fails. The loop condition keeps
  \<open>remainingPublicKeys\<close> positive and, started at the lengths of the two lists, within
  them.
\<close>

function checkMultiSigLoop ::
  "collaborators \<Rightarrow> program_state \<Rightarrow> bytes list \<Rightarrow> bytes list \<Rightarrow> int
   \<Rightarrow> nat \<Rightarrow> nat \<Rightarrow> nat \<Rightarrow> CommonAuthenticationError + (nat \<times> nat \<times> nat)" where
  "checkMultiSigLoop c s publicKeys signatures requiredApprovingPublicKeys
     approvingPublicKeys remainingSignatures remainingPublicKeys =
     (if remainingSignatures > 0
         \<and> remainingPublicKeys \<ge> approvingPublicKeys + remainingSignatures
         \<and> int approvingPublicKeys \<noteq> requiredApprovingPublicKeys
      then
        (let publicKey = publicKeys ! (remainingPublicKeys - 1);
             bitcoinEncodedSignature = signatures ! (remainingSignatures - 1) in
         if \<not> isValidPublicKeyEncoding c publicKey then Inl invalidPublicKeyEncoding
         else if \<not> isValidSignatureEncoding c bitcoinEncodedSignature
         then Inl invalidSignatureEncoding
         else if verifySignature c s bitcoinEncodedSignature publicKey
         then checkMultiSigLoop c s publicKeys signatures requiredApprovingPublicKeys
                (approvingPublicKeys + 1) (remainingSignatures - 1) (remainingPublicKeys - 1)
         else checkMultiSigLoop c s publicKeys signatures requiredApprovingPublicKeys
                approvingPublicKeys remainingSignatures (remainingPublicKeys - 1))
      else Inr (approvingPublicKeys, remainingSignatures, remainingPublicKeys))"
  by pat_completeness auto
termination
  by (relation "measure (\<lambda>(c, s, pks, sigs, req, a, rs, rk). rk)") auto

declare checkMultiSigLoop.simps [simp del]

text \<open>
  The operator in the source's three stages: the key count and the keys (with the
  operation count), the signature count, the signatures and the protocol-bug value, then
  the loop and the pushed result.
\<close>

definition checkMultiSigVerify ::
  "collaborators \<Rightarrow> bytes list \<Rightarrow> bytes list \<Rightarrow> int \<Rightarrow> program_state \<Rightarrow> program_state" where
  "checkMultiSigVerify c publicKeys signatures requiredApprovingPublicKeys s =
     (case checkMultiSigLoop c s publicKeys signatures requiredApprovingPublicKeys
             0 (length signatures) (length publicKeys) of
        Inl e \<Rightarrow> applyError (Common e) s
      | Inr (approvingPublicKeys, remainingSignatures, remainingPublicKeys) \<Rightarrow>
          s\<lparr>stack := stack s @
             [booleanToScriptNumber (int approvingPublicKeys = requiredApprovingPublicKeys)]\<rparr>)"

definition checkMultiSigSignatures ::
  "collaborators \<Rightarrow> bytes list \<Rightarrow> int \<Rightarrow> program_state \<Rightarrow> program_state" where
  "checkMultiSigSignatures c publicKeys potentialPublicKeys s =
     (case js_pop (stack s) of
        (None, rest) \<Rightarrow> applyError (Common emptyStack) s
      | (Some requiredApprovingPublicKeysBytes, rest) \<Rightarrow>
          (let s1 = s\<lparr>stack := rest\<rparr> in
           case parseBytesAsScriptNumber c requiredApprovingPublicKeysBytes of
             None \<Rightarrow> applyError (Common invalidNaturalNumber) s1
           | Some requiredApprovingPublicKeys \<Rightarrow>
               if requiredApprovingPublicKeys < 0
               then applyError (Common invalidNaturalNumber) s1
               else if requiredApprovingPublicKeys > potentialPublicKeys
               then applyError (Common insufficientPublicKeys) s1
               else
                 (case js_splice (stack s1) (- requiredApprovingPublicKeys) of
                    (signatures, rest2) \<Rightarrow>
                      (case js_pop rest2 of
                         (None, rest3) \<Rightarrow> applyError (Common emptyStack) (s1\<lparr>stack := rest2\<rparr>)
                       | (Some protocolBugValue, rest3) \<Rightarrow>
                           (let s3 = s1\<lparr>stack := rest3\<rparr> in
                            if length protocolBugValue \<noteq> 0
                            then applyError (Common invalidProtocolBugValue) s3
                            else checkMultiSigVerify c publicKeys signatures
                                   requiredApprovingPublicKeys s3)))))"

definition opCheckMultiSig :: "collaborators \<Rightarrow> program_state \<Rightarrow> program_state" where
  "opCheckMultiSig c s =
     (case js_pop (stack s) of
        (None, rest) \<Rightarrow> applyError (Common emptyStack) s
      | (Some potentialPublicKeysBytes, rest) \<Rightarrow>
          (let s1 = s\<lparr>stack := rest\<rparr> in
           case parseBytesAsScriptNumber c potentialPublicKeysBytes of
             None \<Rightarrow> applyError (Common invalidNaturalNumber) s1
           | Some potentialPublicKeys \<Rightarrow>
               if potentialPublicKeys < 0
               then applyError (Common invalidNaturalNumber) s1
               else if potentialPublicKeys > maximumPublicKeys
               then applyError (Common exceedsMaximumMultisigPublicKeyCount) s1
               else
                 (case js_splice (stack s1) (- potentialPublicKeys) of
                    (publicKeys, rest2) \<Rightarrow>
                      (let s2 = s1\<lparr>stack := rest2,
                                   operationCount := operationCount s1 + nat potentialPublicKeys\<rparr> in
                       if operationCount s2 > maximumOperationCount
                       then applyError (Common exceededMaximumOperationCount) s2
                       else checkMultiSigSignatures c publicKeys potentialPublicKeys s2))))"

text \<open>
  Modelled from the spec: \<open>parseBytesAsScriptNumber\<close> (common.ts) is not among the
  sources; this instance of the parameter is used on sample inputs only. Section 3: at
  most 9 bytes, little-endian, the sign in the top bit of the last byte, and a
  non-minimal encoding (a last byte \<open>0x00\<close> or \<open>0x80\<close> that could be dropped) is an
  error.
\<close>

definition scriptNumber :: "bytes \<Rightarrow> int option" where
  "scriptNumber bs =
     (if bs = [] then Some 0
      else if length bs > 9 then None
      else if take_bit 7 (last bs) = 0 \<and> (length bs = 1 \<or> \<not> bit (last (butlast bs)) 7)
      then None
      else (let magnitude = int (little_endian (butlast bs @ [take_bit 7 (last bs)]))
            in Some (if bit (last bs) 7 then - magnitude else magnitude)))"

text \<open>
  Sample collaborators: every encoding is accepted, and a signature verifies against a
  key exactly when the two byte strings are equal.
\<close>

definition sample_collaborators :: collaborators where
  "sample_collaborators =
     \<lparr> parseBytesAsScriptNumber = scriptNumber,
       isValidPublicKeyEncoding = (\<lambda>k. True),
       isValidSignatureEncoding = (\<lambda>g. True),
       verifySignature = (\<lambda>s g k. g = k) \<rparr>"

section \<open>The phase pipeline (bitcoin-cash.ts)\<close>

record debugging_step =
  asm :: string
  description :: string
  step_state :: program_state

text \<open>
  The pipeline is given its virtual machine as an argument (virtual-machine.ts is not
  among the sources). The pipeline hands \<open>unlockingResult.stack\<close>, the array itself, to
  the locking phase and reads the same array again afterwards, and the operators push
  and pop in place. So a call of the machine is modelled with two results: what it
  returns, and the content of the \<open>stack\<close> array of the state it was given once the call
  is over. A machine that works on a clone leaves that array as it was; one that works in
  place leaves its terminal stack there.
\<close>

record authentication_virtual_machine =
  evaluate :: "program_state \<Rightarrow> program_state \<times> bytes list"
  debug :: "program_state \<Rightarrow> string \<Rightarrow> debugging_step list \<times> bytes list"

definition Phase_unlocking :: string where
  "Phase_unlocking = ''Begin unlocking script evaluation.''"

definition Phase_locking :: string where
  "Phase_locking = ''Begin locking script evaluation.''"

definition Phase_p2sh :: string where
  "Phase_p2sh = ''Begin Pay-to-Script-Hash (P2SH) script evaluation.''"

definition P2shError_asm :: string where
  "P2shError_asm = ''[P2SH error]''"

definition P2shError_pushOnly :: string where
  "P2shError_pushOnly = ''P2SH error: unlockingScript must be push-only.''"

definition P2shError_emptyStack :: string where
  "P2shError_emptyStack = ''P2SH error: unlockingScript must not leave an empty stack.''"

text \<open>
  \<open>debugPhase\<close>: the steps of one phase, the state of the last step, and the final
  content of the stack array that was passed in. \<open>None\<close> is the \<open>TypeError\<close> of reading
  \<open>.state\<close> of the last step when the machine returns no step.
\<close>

definition debugPhase ::
  "authentication_virtual_machine \<Rightarrow> authentication_program \<Rightarrow> bytes \<Rightarrow> string \<Rightarrow> bytes list
   \<Rightarrow> (program_state \<times> debugging_step list \<times> bytes list) option" where
  "debugPhase vm program scr message stk =
     (case debug vm (createBitcoinCashProgramState program scr stk) message of
        (steps, given) \<Rightarrow>
          if steps = [] then None
          else Some (step_state (last steps), steps, given))"

text \<open>
  Modelled from the spec: \<open>cloneStack\<close> (common.ts) is not among the sources. Section
  4.6: it copies the stack, so that the pop below leaves the unlocking stack as it is.
\<close>

definition cloneStack :: "bytes list \<Rightarrow> bytes list" where
  "cloneStack stk = stk"

text \<open>
  \<open>evaluateP2sh\<close>: clone the unlocking stack, pop the clone, and call \<open>evaluate\<close> on the
  popped element and the rest. The pop of an empty clone is \<open>undefined\<close>, and the callback
  is called with it all the same (\<open>None\<close>).
\<close>

definition evaluateP2sh :: "bytes list \<Rightarrow> (bytes option \<Rightarrow> bytes list \<Rightarrow> 'a) \<Rightarrow> 'a" where
  "evaluateP2sh unlockingStack eval =
     (case js_pop (cloneStack unlockingStack) of (p2shScript, p2shStack) \<Rightarrow> eval p2shScript p2shStack)"

text \<open>
  When the locking phase has run on a shared array, the last unlocking step, whose state
  is \<open>unlockingResult\<close>, shows that array's new content.
\<close>

definition with_last_stack :: "debugging_step list \<Rightarrow> bytes list \<Rightarrow> debugging_step list" where
  "with_last_stack steps stk =
     (if steps = [] then []
      else butlast steps @ [(last steps)\<lparr>step_state := (step_state (last steps))\<lparr>stack := stk\<rparr>\<rparr>])"

text \<open>
  \<open>debugBitcoinCashAuthenticationProgram\<close>. \<open>None\<close>: a phase returned no step, or the
  machine was handed an undefined script.
\<close>

definition debugBitcoinCashAuthenticationProgram ::
  "authentication_virtual_machine \<Rightarrow> authentication_program \<Rightarrow> debugging_step list option" where
  "debugBitcoinCashAuthenticationProgram vm program =
     (case debugPhase vm program (unlockingScript program) Phase_unlocking [] of
        None \<Rightarrow> None
      | Some (unlockingResult, unlockingSteps0, given0) \<Rightarrow>
          if error unlockingResult \<noteq> None then Some unlockingSteps0
          else
            (case debugPhase vm program (lockingScript program) Phase_locking
                    (stack unlockingResult) of
               None \<Rightarrow> None
             | Some (lockingResult, lockingSteps, unlockingStack) \<Rightarrow>
                 (let unlockingSteps = with_last_stack unlockingSteps0 unlockingStack in
                  if error lockingResult \<noteq> None \<or> \<not> isPayToScriptHash (lockingScript program)
                  then Some (unlockingSteps @ lockingSteps)
                  else if \<not> isPushOnly (operations unlockingResult)
                  then Some (unlockingSteps @ lockingSteps @
                         [\<lparr> asm = P2shError_asm, description = P2shError_pushOnly,
                            step_state = lockingResult \<rparr>])
                  else if length unlockingStack = 0
                  then Some (unlockingSteps @ lockingSteps @
                         [\<lparr> asm = P2shError_asm, description = P2shError_emptyStack,
                            step_state = lockingResult \<rparr>])
                  else evaluateP2sh unlockingStack
                         (\<lambda>p2shScript p2shStack.
                            case p2shScript of
                              None \<Rightarrow> None
                            | Some scr \<Rightarrow>
                                (case debugPhase vm program scr Phase_p2sh p2shStack of
                                   None \<Rightarrow> None
                                 | Some (p2shResult, p2shSteps, given2) \<Rightarrow>
                                     Some (unlockingSteps @ lockingSteps @ p2shSteps))))))"

text \<open>
  \<open>evaluateBitcoinCashAuthenticationProgram\<close>. \<open>None\<close>: the machine was handed an
  undefined script (the pop of an empty unlocking stack).
\<close>

definition evaluateBitcoinCashAuthenticationProgram ::
  "authentication_virtual_machine \<Rightarrow> authentication_program \<Rightarrow> program_state option" where
  "evaluateBitcoinCashAuthenticationProgram vm program =
     (case evaluate vm (createBitcoinCashProgramState program (unlockingScript program) []) of
        (unlockingResult, given0) \<Rightarrow>
          if error unlockingResult \<noteq> None then Some unlockingResult
          else
            (case evaluate vm (createBitcoinCashProgramState program (lockingScript program)
                                 (stack unlockingResult)) of
               (lockingResult, unlockingStack) \<Rightarrow>
                 if isPayToScriptHash (lockingScript program)
                 then evaluateP2sh unlockingStack
                        (\<lambda>p2shScript p2shStack.
                           case p2shScript of
                             None \<Rightarrow> None
                           | Some scr \<Rightarrow>
                               Some (fst (evaluate vm
                                 (createBitcoinCashProgramState program scr p2shStack))))
                 else Some lockingResult))"

text \<open>A machine that never changes the stack array of the state it is given.\<close>

definition works_on_a_clone :: "authentication_virtual_machine \<Rightarrow> bool" where
  "works_on_a_clone vm =
     ((\<forall>s. snd (evaluate vm s) = stack s) \<and> (\<forall>s m. snd (debug vm s m) = stack s))"

text \<open>
  A machine whose debugger agrees with its evaluator (section 4.5): the steps are never
  empty, and the state of the last step is the terminal state of \<open>evaluate\<close>.
\<close>

definition debug_agrees_with_evaluate :: "authentication_virtual_machine \<Rightarrow> bool" where
  "debug_agrees_with_evaluate vm =
     (\<forall>s m. fst (debug vm s m) \<noteq> []
        \<and> step_state (last (fst (debug vm s m))) = fst (evaluate vm s)
        \<and> snd (debug vm s m) = snd (evaluate vm s))"

text \<open>
  A stand-in machine for sample runs of the pipeline: it works on a clone, records every
  byte of the script as an executed operation, and pushes a non-empty script as one
  element. Its debugger returns the phase label step and one step with the terminal
  state.
\<close>

definition sample_evaluate :: "program_state \<Rightarrow> program_state" where
  "sample_evaluate s =
     s\<lparr>ip := int (length (script s)), operationCount := length (script s),
        operations := script s,
        stack := (if script s = [] then stack s else stack s @ [script s])\<rparr>"

definition sample_vm :: authentication_virtual_machine where
  "sample_vm =
     \<lparr> evaluate = (\<lambda>s. (sample_evaluate s, stack s)),
       debug = (\<lambda>s m. ([\<lparr> asm = [], description = m, step_state = s \<rparr>,
                         \<lparr> asm = ''...'', description = [], step_state = sample_evaluate s \<rparr>],
                        stack s)) \<rparr>"

definition p2sh_locking :: bytes where
  "p2sh_locking = [OP_HASH160, OP_PUSHBYTES_20] @ replicate 20 0 @ [OP_EQUAL]"



section \<open>Sample inputs\<close>

definition sample_external :: external_state where
  "sample_external =
     \<lparr> version = 1, transactionOutpointsHash = [], transactionSequenceNumbersHash = [],
       outpointTransactionHash = [], correspondingOutputHash = [],
       transactionOutputsHash = [], outpointIndex = 0, outpointValue = 0,
       sequenceNumber = 0, locktime = 0, blockHeight = 0, blockTime = 0 \<rparr>"

definition sample_program :: "bytes \<Rightarrow> bytes \<Rightarrow> authentication_program" where
  "sample_program unlocking locking =
     \<lparr> lockingScript = locking, unlockingScript = unlocking, state = sample_external \<rparr>"

text \<open>A state as a phase starts it, on the sample context.\<close>

definition sample_state :: "bytes \<Rightarrow> bytes list \<Rightarrow> program_state" where
  "sample_state scr stk = createBitcoinCashProgramState (sample_program [] []) scr stk"

section \<open>Facts about the array primitives\<close>

lemma js_slice_nonneg:
  assumes "0 \<le> b" "b \<le> e" "e \<le> int (length xs)"
  shows "js_slice xs b e = take (nat (e - b)) (drop (nat b) xs)"
proof -
  from assms have "js_relative (length xs) b = nat b" "js_relative (length xs) e = nat e"
    by (auto simp: js_relative_def min_def)
  moreover have "nat e - nat b = nat (e - b)"
    using assms by (simp add: nat_diff_distrib)
  ultimately show ?thesis
    by (simp add: js_slice_def Let_def)
qed

section \<open>Final validity\<close>

text \<open>
  C1: the claim is that a terminal state is judged valid iff it has no error, exactly one
  stack element, and that element is truthy. The code tests \<open>error !== undefined\<close>: a
  state without an error is never judged valid, whatever its stack.
\<close>

theorem validate_rejects_error_free:
  "error s = None \<Longrightarrow> \<not> validateBitcoinCashAuthenticationProgramState truthy s"
  by (simp add: validateBitcoinCashAuthenticationProgramState_def)

theorem validate_rejects_error_free_witness:
  "error (sample_state [] [[1]]) = None
   \<and> length (stack (sample_state [] [[1]])) = 1
   \<and> \<not> validateBitcoinCashAuthenticationProgramState (\<lambda>e. True) (sample_state [] [[1]])"
  using validate_rejects_error_free [of "sample_state [] [[1]]" "\<lambda>e. True"]
  by (simp add: sample_state_def createBitcoinCashProgramState_def)

section \<open>The initial instruction pointer\<close>

text \<open>
  C4: the claim is that a phase's initial state has \<open>ip = -1\<close>, so that the first
  \<open>before\<close> reads the opcode at index 0. The constructed state has \<open>ip = 0\<close>: the first
  \<open>before\<close> moves to index 1 and counts and records the byte there (or nothing, when the
  script has at most one byte); the byte at index 0 is never read by the hook.
\<close>

theorem create_then_before_reads_index_one:
  "ip (createBitcoinCashProgramState program scr stk) = 0
   \<and> ip (before (createBitcoinCashProgramState program scr stk)) = 1
   \<and> operations (before (createBitcoinCashProgramState program scr stk))
       = (if 1 < length scr then [scr ! 1] else [])"
  by (simp add: createBitcoinCashProgramState_def before_def js_index_def Let_def
      maximumOperationCount_def applyError_def)

theorem create_then_before_reads_index_one_witness:
  "operations (before (sample_state [OP_1, OP_16] [])) = [OP_16]
   \<and> operationCount (before (sample_state [OP_1, OP_16] [])) = 1
   \<and> ip (sample_state [OP_1, OP_16] []) = 0"
  using create_then_before_reads_index_one [of "sample_program [] []" "[OP_1, OP_16]" "[]"]
  by (simp add: sample_state_def createBitcoinCashProgramState_def before_def js_index_def
      Let_def maximumOperationCount_def applyError_def)

section \<open>Constant pushes\<close>

text \<open>
  C5: the claim is that \<open>OP_PUSHBYTES_N\<close>, with the opcode at \<open>ip\<close>, pushes the \<open>N\<close>
  bytes at positions \<open>ip + 1\<close> to \<open>ip + N\<close>, sets \<open>ip\<close> to \<open>ip + N\<close>, and fails with
  \<open>malformedPush\<close> when fewer than \<open>N\<close> bytes follow the opcode. The operation slices from
  \<open>ip\<close> itself: it fails with \<open>malformedPush\<close> only when the script is shorter than
  \<open>ip + N\<close>, and otherwise pushes the \<open>N\<close> bytes at positions \<open>ip\<close> to \<open>ip + N - 1\<close> (the
  opcode and the first \<open>N - 1\<close> bytes after it) and sets \<open>ip\<close> to \<open>ip + N\<close>, also when
  only \<open>N - 1\<close> bytes follow the opcode.
\<close>

theorem opPushDataConstant_slices_from_ip:
  assumes "0 \<le> ip s"
  shows "opPushDataConstant n s
     = (if int (length (script s)) < ip s + int n
        then applyError (Common malformedPush) s
        else s\<lparr>stack := stack s @ [take n (drop (nat (ip s)) (script s))],
               ip := ip s + int n\<rparr>)"
  using assms by (simp add: opPushDataConstant_def Let_def js_slice_nonneg)

theorem opPushDataConstant_slices_from_ip_witness:
  "js_index [OP_PUSHBYTES 2, 0xAA, 0xBB] 0 = Some (OP_PUSHBYTES 2)
   \<and> opPushDataConstant 2 (sample_state [OP_PUSHBYTES 2, 0xAA, 0xBB] [])
      = (sample_state [OP_PUSHBYTES 2, 0xAA, 0xBB] [])\<lparr>stack := [[OP_PUSHBYTES 2, 0xAA]], ip := 2\<rparr>
   \<and> opPushDataConstant 2 (sample_state [OP_PUSHBYTES 2, 0xAA] [])
      = (sample_state [OP_PUSHBYTES 2, 0xAA] [])\<lparr>stack := [[OP_PUSHBYTES 2, 0xAA]], ip := 2\<rparr>"
  using opPushDataConstant_slices_from_ip [of "sample_state [OP_PUSHBYTES 2, 0xAA, 0xBB] []" 2]
    opPushDataConstant_slices_from_ip [of "sample_state [OP_PUSHBYTES 2, 0xAA] []" 2]
  by (simp add: sample_state_def createBitcoinCashProgramState_def js_index_def)

section \<open>\<open>OP_PUSHDATA1\<close>\<close>

lemma opPushData1_cases:
  assumes "0 \<le> ip s" "js_index (script s) (ip s) = Some k"
    "ip s + 1 + int (unat k) \<le> int (length (script s))"
  shows "opPushData1 s =
     (if unat k < 75 then Some (applyError (Common nonMinimalPush) s)
      else Some (s\<lparr>stack := stack s @ [take (unat k) (drop (nat (ip s) + 1) (script s))],
                ip := ip s + 1 + int (unat k)\<rparr>))"
proof -
  from assms(1,2) have lt: "nat (ip s) < length (script s)" and k: "k = script s ! nat (ip s)"
    by (auto simp: js_index_def split: if_splits)
  have rd: "readLittleEndianLength (script s) (ip s) 1 Uint8 = Some (unat k)"
    using assms lt k by (simp add: readLittleEndianLength_def uint_width_def
        take_Suc_conv_app_nth hd_drop_conv_nth take_Suc)
  have kb: "unat k \<le> 520"
    using unsigned_less [of k, where ?'a = nat] by simp
  have sl: "js_slice (script s) (ip s + 1) (ip s + 1 + int (unat k))
      = take (unat k) (drop (nat (ip s) + 1) (script s))"
    using assms by (simp add: js_slice_nonneg nat_add_distrib)
  have ge: "\<not> int (length (script s)) \<le> ip s"
    using lt assms(1) by linarith
  show ?thesis
    using assms rd kb sl ge
    by (simp add: opPushData1_def createPushDataOperator_def Let_def
        maximumPushDataConstant_def maximumPushSize_def)
qed

text \<open>
  C9: the claim is that \<open>OP_PUSHDATA1\<close> with a readable length byte \<open>K\<close> and \<open>K\<close> payload
  bytes fails with \<open>nonMinimalPush\<close> exactly when \<open>K \<le> 75\<close>. The operation reads \<open>K\<close> at
  index \<open>ip\<close> and compares it with the minimum 75 by \<open><\<close>: it fails with
  \<open>nonMinimalPush\<close> exactly when \<open>K \<le> 74\<close>, and a length byte of 75 is accepted and its
  payload pushed.
\<close>

theorem opPushData1_nonminimal_below_75:
  assumes "0 \<le> ip s" "js_index (script s) (ip s) = Some k"
    "ip s + 1 + int (unat k) \<le> int (length (script s))"
  shows "opPushData1 s =
     (if unat k < 75 then Some (applyError (Common nonMinimalPush) s)
      else Some (s\<lparr>stack := stack s @ [take (unat k) (drop (nat (ip s) + 1) (script s))],
                ip := ip s + 1 + int (unat k)\<rparr>))"
  using assms by (rule opPushData1_cases)

theorem opPushData1_nonminimal_below_75_witness:
  "opPushData1 ((sample_state ([OP_PUSHDATA1, 75] @ replicate 75 0xAA) [])\<lparr>ip := 1\<rparr>)
   = Some ((sample_state ([OP_PUSHDATA1, 75] @ replicate 75 0xAA) [])
            \<lparr>stack := [replicate 75 0xAA], ip := 77\<rparr>)"
  using opPushData1_nonminimal_below_75
    [of "(sample_state ([OP_PUSHDATA1, 75] @ replicate 75 0xAA) [])\<lparr>ip := 1\<rparr>" 75]
  by (simp add: sample_state_def createBitcoinCashProgramState_def js_index_def)

text \<open>
  With \<open>ip\<close> on the opcode, where the \<open>before\<close> hook leaves it, the byte read as the
  length is the opcode \<open>0x4c\<close> itself: the same script has the length byte and 75
  payload bytes pushed as one element of 76 bytes.
\<close>

lemma opPushData1_at_opcode:
  "opPushData1 (sample_state ([OP_PUSHDATA1, 75] @ replicate 75 0xAA) [])
   = Some ((sample_state ([OP_PUSHDATA1, 75] @ replicate 75 0xAA) [])
            \<lparr>stack := [75 # replicate 75 0xAA], ip := 77\<rparr>)"
  using opPushData1_cases [of "sample_state ([OP_PUSHDATA1, 75] @ replicate 75 0xAA) []" OP_PUSHDATA1]
  by (simp add: sample_state_def createBitcoinCashProgramState_def js_index_def OP_PUSHDATA1_def)

section \<open>\<open>OP_CHECKMULTISIG\<close>: the verification loop\<close>

text \<open>
  C7: the claim is that the loop ends exactly when all \<open>m\<close> signatures have matched
  (true) or fewer keys than signatures remain (false). The loop condition compares the
  remaining keys with \<open>approvingPublicKeys + remainingSignatures\<close>, which stays \<open>m\<close>: with
  as many keys as signatures (\<open>m\<close>-of-\<open>m\<close>, \<open>m \<ge> 2\<close>) and a last signature that matches the
  last key, the loop stops after that first match, with \<open>m - 1\<close> signatures unchecked and
  \<open>m - 1\<close> keys left for them, and the operator pushes false.
\<close>

theorem checkMultiSigLoop_stops_after_first_match:
  assumes "2 \<le> length sigs" "length pks = length sigs"
    "isValidPublicKeyEncoding c (last pks)" "isValidSignatureEncoding c (last sigs)"
    "verifySignature c s (last sigs) (last pks)"
  shows "checkMultiSigLoop c s pks sigs (int (length sigs)) 0 (length sigs) (length pks)
           = Inr (1, length sigs - 1, length pks - 1)
         \<and> checkMultiSigVerify c pks sigs (int (length sigs)) s = s\<lparr>stack := stack s @ [[]]\<rparr>"
proof -
  from assms have ne: "pks \<noteq> []" "sigs \<noteq> []"
    by auto
  have l: "pks ! (length pks - 1) = last pks" "sigs ! (length sigs - 1) = last sigs"
    using ne by (simp_all add: last_conv_nth)
  have stop: "checkMultiSigLoop c s pks sigs (int (length sigs)) 1 (length sigs - 1) (length pks - 1)
      = Inr (1, length sigs - 1, length pks - 1)"
    using assms(1,2) by (subst checkMultiSigLoop.simps) simp
  have first: "checkMultiSigLoop c s pks sigs (int (length sigs)) 0 (length sigs) (length pks)
      = checkMultiSigLoop c s pks sigs (int (length sigs)) 1 (length sigs - 1) (length pks - 1)"
    using assms l ne by (subst checkMultiSigLoop.simps) (simp add: Let_def)
  have loop: "checkMultiSigLoop c s pks sigs (int (length sigs)) 0 (length sigs) (length pks)
           = Inr (1, length sigs - 1, length pks - 1)"
    using first stop by simp
  have "int 1 \<noteq> int (length sigs)"
    using assms(1) by simp
  then show ?thesis
    using loop by (simp add: checkMultiSigVerify_def booleanToScriptNumber_def)
qed

text \<open>
  A 2-of-2 spend whose two signatures both verify, in key order: the operator leaves the
  false element on the stack.
\<close>

theorem checkMultiSigLoop_stops_after_first_match_witness:
  "checkMultiSigLoop sample_collaborators (sample_state [] [])
      [[0xA1], [0xA2]] [[0xA1], [0xA2]] 2 0 2 2 = Inr (1, 1, 1)
   \<and> opCheckMultiSig sample_collaborators
        (sample_state [] [[], [0xA1], [0xA2], [2], [0xA1], [0xA2], [2]])
      = (sample_state [] [[]])\<lparr>operationCount := 2\<rparr>"
  using checkMultiSigLoop_stops_after_first_match
    [of "[[0xA1], [0xA2]]" "[[0xA1], [0xA2]]" sample_collaborators "sample_state [] []"]
  apply (simp add: sample_collaborators_def)
  apply (simp add: opCheckMultiSig_def checkMultiSigSignatures_def checkMultiSigVerify_def
      sample_collaborators_def sample_state_def createBitcoinCashProgramState_def
      js_pop_def js_splice_def js_relative_def scriptNumber_def Let_def maximumPublicKeys_def
      maximumOperationCount_def booleanToScriptNumber_def applyError_def checkMultiSigLoop.simps)
  done

section \<open>\<open>OP_CHECKMULTISIG\<close>: what is popped\<close>

text \<open>
  C8: the claim is that the operator removes exactly \<open>n\<close> keys and \<open>m\<close> signatures and
  leaves everything below the dummy element untouched, and removes no key when \<open>n = 0\<close>.
  The keys are taken with \<open>splice(-n)\<close>, and \<open>splice(-0)\<close> is \<open>splice(0)\<close>: with a key
  count of 0 every element under the count is removed as a key, the stack is left empty,
  and the pop of the signature count fails with \<open>emptyStack\<close>.
\<close>

theorem opCheckMultiSig_zero_keys_empties_stack:
  assumes "stack s = st @ [b]" "parseBytesAsScriptNumber c b = Some 0" "operationCount s \<le> 201"
  shows "opCheckMultiSig c s = applyError (Common emptyStack) (s\<lparr>stack := []\<rparr>)"
  using assms
  by (simp add: opCheckMultiSig_def checkMultiSigSignatures_def js_pop_def js_splice_def
      js_relative_def Let_def maximumPublicKeys_def maximumOperationCount_def)

theorem opCheckMultiSig_zero_keys_empties_stack_witness:
  "opCheckMultiSig sample_collaborators (sample_state [] [[7], [], [], []])
   = (sample_state [] [])\<lparr>error := Some (Common emptyStack)\<rparr>"
  using opCheckMultiSig_zero_keys_empties_stack
    [of "sample_state [] [[7], [], [], []]" "[[7], [], []]" "[]" sample_collaborators]
  by (simp add: sample_collaborators_def sample_state_def createBitcoinCashProgramState_def
      scriptNumber_def applyError_def)

text \<open>
  The signatures are taken the same way: with one key and a signature count of 0, the
  element below the dummy and the dummy itself are removed as signatures.
\<close>

lemma opCheckMultiSig_zero_signatures:
  "opCheckMultiSig sample_collaborators (sample_state [] [[7], [], [], [0xA1], [1]])
   = (sample_state [] [])\<lparr>operationCount := 1, error := Some (Common emptyStack)\<rparr>"
  by (simp add: opCheckMultiSig_def checkMultiSigSignatures_def
      sample_collaborators_def sample_state_def createBitcoinCashProgramState_def
      js_pop_def js_splice_def js_relative_def scriptNumber_def Let_def maximumPublicKeys_def
      maximumOperationCount_def applyError_def)

section \<open>The operation count\<close>

lemma before_operationCount_mono: "operationCount s \<le> operationCount (before s)"
  by (simp add: before_def Let_def applyError_def split: option.splits)

lemma before_error_free_bound:
  "error (before s) = None \<Longrightarrow> operationCount s \<le> 201 \<Longrightarrow> operationCount (before s) \<le> 201"
  by (simp add: before_def Let_def applyError_def maximumOperationCount_def
      split: option.splits if_splits)

lemma before_exceeds:
  "js_index (script s) (ip s + 1) = Some b \<Longrightarrow> 201 < operationCount s + 1 \<Longrightarrow>
   error (before s) = Some (BitcoinCash bch_exceededMaximumOperationCount)
   \<and> operationCount (before s) = operationCount s + 1"
  by (simp add: before_def Let_def applyError_def maximumOperationCount_def)

lemma checkMultiSigVerify_operationCount:
  "operationCount (checkMultiSigVerify c pks sigs m s) = operationCount s"
  by (simp add: checkMultiSigVerify_def applyError_def split: sum.splits prod.splits)

lemma checkMultiSigSignatures_operationCount:
  "operationCount (checkMultiSigSignatures c pks n s) = operationCount s"
  by (simp add: checkMultiSigSignatures_def applyError_def checkMultiSigVerify_operationCount
      Let_def split: option.splits prod.splits)

lemma opCheckMultiSig_operationCount_mono:
  "operationCount s \<le> operationCount (opCheckMultiSig c s)"
  by (simp add: opCheckMultiSig_def applyError_def checkMultiSigSignatures_operationCount
      Let_def split: option.splits prod.splits)

lemma opCheckMultiSig_error_free_bound:
  "error (opCheckMultiSig c s) = None \<Longrightarrow> operationCount (opCheckMultiSig c s) \<le> 201"
  by (simp add: opCheckMultiSig_def applyError_def checkMultiSigSignatures_operationCount
      Let_def maximumOperationCount_def split: option.splits prod.splits if_splits)

lemma opCheckMultiSig_exceeds:
  "stack s = st @ [b] \<Longrightarrow> parseBytesAsScriptNumber c b = Some n \<Longrightarrow> 0 \<le> n \<Longrightarrow> n \<le> 20 \<Longrightarrow>
   201 < operationCount s + nat n \<Longrightarrow>
   error (opCheckMultiSig c s) = Some (Common exceededMaximumOperationCount)
   \<and> operationCount (opCheckMultiSig c s) = operationCount s + nat n"
  by (simp add: opCheckMultiSig_def applyError_def js_pop_def Let_def maximumPublicKeys_def
      maximumOperationCount_def split: prod.splits)

text \<open>The hook on a state whose next byte exists and whose count stays within the limit.\<close>

lemma before_counts:
  "js_index (script t) (ip t + 1) = Some b \<Longrightarrow> operationCount t + 1 \<le> 201 \<Longrightarrow>
   before t = t\<lparr>ip := ip t + 1, operationCount := operationCount t + 1,
               operations := operations t @ [b]\<rparr>"
  by (simp add: before_def Let_def maximumOperationCount_def)

lemma before_iterate:
  "error s = None \<Longrightarrow> - 1 \<le> ip s \<Longrightarrow> ip s + int n < int (length (script s)) \<Longrightarrow>
   operationCount s + n \<le> 201 \<Longrightarrow>
   ip ((before ^^ n) s) = ip s + int n \<and> operationCount ((before ^^ n) s) = operationCount s + n
   \<and> script ((before ^^ n) s) = script s \<and> error ((before ^^ n) s) = None"
proof (induction n)
  case 0
  then show ?case by simp
next
  case (Suc n)
  then have ih: "ip ((before ^^ n) s) = ip s + int n"
    "operationCount ((before ^^ n) s) = operationCount s + n"
    "script ((before ^^ n) s) = script s" "error ((before ^^ n) s) = None"
    by simp_all
  let ?t = "(before ^^ n) s"
  obtain b where idx: "js_index (script ?t) (ip ?t + 1) = Some b"
    using Suc.prems ih by (simp add: js_index_def)
  have cnt: "operationCount ?t + 1 \<le> 201"
    using Suc.prems ih by simp
  have "(before ^^ Suc n) s = before ?t"
    by simp
  also have "\<dots> = ?t\<lparr>ip := ip ?t + 1, operationCount := operationCount ?t + 1,
               operations := operations ?t @ [b]\<rparr>"
    using idx cnt by (rule before_counts)
  finally show ?case
    using ih by simp
qed

text \<open>
  C10, as stated, fails: a phase on a script of 203 opcodes (numeric pushes, whose
  operators change neither \<open>ip\<close> nor the count). The hook runs once per step; after 201
  runs the state still satisfies \<open>continue\<close>, and after the 202nd run it has the error
  and an operation count of 202.
\<close>

theorem operationCount_above_limit_counterexample:
  "continue ((before ^^ 201) (sample_state (replicate 203 OP_1) []))
   \<and> operationCount ((before ^^ 202) (sample_state (replicate 203 OP_1) [])) = 202
   \<and> \<not> operationCount ((before ^^ 202) (sample_state (replicate 203 OP_1) [])) \<le> 201
   \<and> error ((before ^^ 202) (sample_state (replicate 203 OP_1) []))
       = Some (BitcoinCash bch_exceededMaximumOperationCount)"
proof -
  let ?s = "sample_state (replicate 203 OP_1) []"
  have init: "error ?s = None" "ip ?s = 0" "operationCount ?s = 0"
    "script ?s = replicate 203 OP_1"
    by (simp_all add: sample_state_def createBitcoinCashProgramState_def)
  have it: "ip ((before ^^ 201) ?s) = 201 \<and> operationCount ((before ^^ 201) ?s) = 201
     \<and> script ((before ^^ 201) ?s) = replicate 203 OP_1 \<and> error ((before ^^ 201) ?s) = None"
    using before_iterate [of ?s 201] init by simp
  have split: "(before ^^ 202) ?s = before ((before ^^ 201) ?s)"
    using funpow.simps(2) [of 201 before] by simp
  have "js_index (script ((before ^^ 201) ?s)) (ip ((before ^^ 201) ?s) + 1) = Some OP_1"
    using it by (simp add: js_index_def)
  from before_exceeds [OF this] it split show ?thesis
    by (simp add: continue_def)
qed

text \<open>
  C10, amended: the operation count never decreases across the \<open>before\<close> hook or
  \<open>OP_CHECKMULTISIG\<close>; it is at most 201 in every error-free state that the hook returns
  from a state within the limit and in every error-free state that \<open>OP_CHECKMULTISIG\<close>
  returns; and an increment that would exceed 201 (one more opcode, or the key count
  \<open>n\<close>) yields the error \<open>exceededMaximumOperationCount\<close> of the hook's, respectively the
  operator's, error enum, on a state that keeps the incremented count.
\<close>

theorem operationCount_bounded_when_error_free:
  "operationCount s \<le> operationCount (before s)
   \<and> operationCount s \<le> operationCount (opCheckMultiSig c s)
   \<and> (error (before s) = None \<and> operationCount s \<le> 201 \<longrightarrow> operationCount (before s) \<le> 201)
   \<and> (error (opCheckMultiSig c s) = None \<longrightarrow> operationCount (opCheckMultiSig c s) \<le> 201)
   \<and> (js_index (script s) (ip s + 1) \<noteq> None \<and> 201 < operationCount s + 1 \<longrightarrow>
        error (before s) = Some (BitcoinCash bch_exceededMaximumOperationCount)
        \<and> operationCount (before s) = operationCount s + 1)
   \<and> (\<forall>st b n. stack s = st @ [b] \<and> parseBytesAsScriptNumber c b = Some n \<and> 0 \<le> n \<and> n \<le> 20
        \<and> 201 < operationCount s + nat n \<longrightarrow>
        error (opCheckMultiSig c s) = Some (Common exceededMaximumOperationCount)
        \<and> operationCount (opCheckMultiSig c s) = operationCount s + nat n)"
  using before_operationCount_mono [of s] opCheckMultiSig_operationCount_mono [of s c]
    before_error_free_bound [of s] opCheckMultiSig_error_free_bound [of c s]
    before_exceeds [of s] opCheckMultiSig_exceeds [of s _ _ c]
  by blast

theorem operationCount_bounded_when_error_free_witness:
  "error (before ((sample_state [OP_1, OP_1] [])\<lparr>operationCount := 200\<rparr>)) = None
   \<and> operationCount (before ((sample_state [OP_1, OP_1] [])\<lparr>operationCount := 200\<rparr>)) = 201
   \<and> error (before ((sample_state [OP_1, OP_1] [])\<lparr>operationCount := 201\<rparr>))
       = Some (BitcoinCash bch_exceededMaximumOperationCount)
   \<and> operationCount (before ((sample_state [OP_1, OP_1] [])\<lparr>operationCount := 201\<rparr>)) = 202
   \<and> error (opCheckMultiSig sample_collaborators
        (sample_state [] [[], [0xA1], [1], [0xA1], [1]])) = None
   \<and> operationCount (opCheckMultiSig sample_collaborators
        (sample_state [] [[], [0xA1], [1], [0xA1], [1]])) = 1
   \<and> error (opCheckMultiSig sample_collaborators
        ((sample_state [] [[], [], [0xA1], [1]])\<lparr>operationCount := 201\<rparr>))
       = Some (Common exceededMaximumOperationCount)
   \<and> operationCount (opCheckMultiSig sample_collaborators
        ((sample_state [] [[], [], [0xA1], [1]])\<lparr>operationCount := 201\<rparr>)) = 202"
  using operationCount_bounded_when_error_free
    [of "(sample_state [OP_1, OP_1] [])\<lparr>operationCount := 200\<rparr>" sample_collaborators]
    operationCount_bounded_when_error_free
    [of "(sample_state [OP_1, OP_1] [])\<lparr>operationCount := 201\<rparr>" sample_collaborators]
    operationCount_bounded_when_error_free
    [of "sample_state [] [[], [0xA1], [1], [0xA1], [1]]" sample_collaborators]
    operationCount_bounded_when_error_free
    [of "(sample_state [] [[], [], [0xA1], [1]])\<lparr>operationCount := 201\<rparr>" sample_collaborators]
  by (simp add: before_def js_index_def opCheckMultiSig_def checkMultiSigSignatures_def
      checkMultiSigVerify_def
      sample_collaborators_def sample_state_def createBitcoinCashProgramState_def
      js_pop_def js_splice_def js_relative_def scriptNumber_def Let_def maximumPublicKeys_def
      maximumOperationCount_def booleanToScriptNumber_def applyError_def checkMultiSigLoop.simps)

section \<open>The pipelines, unfolded\<close>

lemma evaluateP2sh_cases:
  "evaluateP2sh stk f = (if stk = [] then f None [] else f (Some (last stk)) (butlast stk))"
  by (simp add: evaluateP2sh_def cloneStack_def js_pop_def)

lemma evaluate_pipeline_unfold:
  assumes "evaluate vm (createBitcoinCashProgramState program (unlockingScript program) []) = (u, g)"
    and "evaluate vm (createBitcoinCashProgramState program (lockingScript program) (stack u)) = (l, a)"
  shows "evaluateBitcoinCashAuthenticationProgram vm program =
     (if error u \<noteq> None then Some u
      else if \<not> isPayToScriptHash (lockingScript program) then Some l
      else if a = [] then None
      else Some (fst (evaluate vm (createBitcoinCashProgramState program (last a) (butlast a)))))"
  using assms
  by (simp add: evaluateBitcoinCashAuthenticationProgram_def evaluateP2sh_cases)

lemma debugPhase_unfold:
  assumes "debug vm (createBitcoinCashProgramState program scr stk) m = (steps, a)" "steps \<noteq> []"
  shows "debugPhase vm program scr m stk = Some (step_state (last steps), steps, a)"
  using assms by (simp add: debugPhase_def)

lemma debug_pipeline_unfold:
  assumes "debug vm (createBitcoinCashProgramState program (unlockingScript program) [])
             Phase_unlocking = (us, g)" "us \<noteq> []" "u = step_state (last us)"
    and "debug vm (createBitcoinCashProgramState program (lockingScript program) (stack u))
             Phase_locking = (ls, a)" "ls \<noteq> []" "l = step_state (last ls)"
    and "debug vm (createBitcoinCashProgramState program (last a) (butlast a))
             Phase_p2sh = (ps, g2)" "ps \<noteq> []"
  shows "debugBitcoinCashAuthenticationProgram vm program =
     (if error u \<noteq> None then Some us
      else if error l \<noteq> None \<or> \<not> isPayToScriptHash (lockingScript program)
      then Some (with_last_stack us a @ ls)
      else if \<not> isPushOnly (operations u)
      then Some (with_last_stack us a @ ls @
             [\<lparr> asm = P2shError_asm, description = P2shError_pushOnly, step_state = l \<rparr>])
      else if a = []
      then Some (with_last_stack us a @ ls @
             [\<lparr> asm = P2shError_asm, description = P2shError_emptyStack, step_state = l \<rparr>])
      else Some (with_last_stack us a @ ls @ ps))"
  using assms
  by (simp add: debugBitcoinCashAuthenticationProgram_def debugPhase_unfold evaluateP2sh_cases
      Let_def)

lemma with_last_stack_same:
  "steps \<noteq> [] \<Longrightarrow> with_last_stack steps (stack (step_state (last steps))) = steps"
  by (simp add: with_last_stack_def)

text \<open>
  Both pipelines on a machine that works on a clone and whose debugger agrees with its
  evaluator, in terms of the three phase results \<open>u\<close>, \<open>l\<close> and \<open>r\<close>.
\<close>

lemma pipelines_on_agreeing_clone:
  assumes "works_on_a_clone vm" "debug_agrees_with_evaluate vm"
    "u = fst (evaluate vm (createBitcoinCashProgramState program (unlockingScript program) []))"
    "l = fst (evaluate vm (createBitcoinCashProgramState program (lockingScript program) (stack u)))"
    "r = fst (evaluate vm
           (createBitcoinCashProgramState program (last (stack u)) (butlast (stack u))))"
  shows "evaluateBitcoinCashAuthenticationProgram vm program =
     (if error u \<noteq> None then Some u
      else if \<not> isPayToScriptHash (lockingScript program) then Some l
      else if stack u = [] then None
      else Some r)"
    and "\<exists>us ls ps. ls \<noteq> [] \<and> ps \<noteq> [] \<and> us \<noteq> []
      \<and> step_state (last us) = u \<and> step_state (last ls) = l \<and> step_state (last ps) = r
      \<and> debugBitcoinCashAuthenticationProgram vm program =
     (if error u \<noteq> None then Some us
      else if error l \<noteq> None \<or> \<not> isPayToScriptHash (lockingScript program)
      then Some (us @ ls)
      else if \<not> isPushOnly (operations u)
      then Some (us @ ls @
             [\<lparr> asm = P2shError_asm, description = P2shError_pushOnly, step_state = l \<rparr>])
      else if stack u = []
      then Some (us @ ls @
             [\<lparr> asm = P2shError_asm, description = P2shError_emptyStack, step_state = l \<rparr>])
      else Some (us @ ls @ ps))"
proof -
  let ?s0 = "createBitcoinCashProgramState program (unlockingScript program) []"
  let ?s1 = "createBitcoinCashProgramState program (lockingScript program) (stack u)"
  let ?s2 = "createBitcoinCashProgramState program (last (stack u)) (butlast (stack u))"
  have st1: "stack ?s1 = stack u"
    by (simp add: createBitcoinCashProgramState_def)
  have e0: "evaluate vm ?s0 = (u, snd (evaluate vm ?s0))"
    using assms(3) by simp
  have e1: "evaluate vm ?s1 = (l, stack u)"
    using assms(1,4) st1 by (simp add: works_on_a_clone_def prod_eq_iff)
  show "evaluateBitcoinCashAuthenticationProgram vm program =
     (if error u \<noteq> None then Some u
      else if \<not> isPayToScriptHash (lockingScript program) then Some l
      else if stack u = [] then None
      else Some r)"
    using evaluate_pipeline_unfold [OF e0 e1] assms(5) by simp
  let ?us = "fst (debug vm ?s0 Phase_unlocking)"
  let ?ls = "fst (debug vm ?s1 Phase_locking)"
  let ?ps = "fst (debug vm ?s2 Phase_p2sh)"
  have ne: "?us \<noteq> []" "?ls \<noteq> []" "?ps \<noteq> []"
    using assms(2) by (simp_all add: debug_agrees_with_evaluate_def)
  have lst: "step_state (last ?us) = u" "step_state (last ?ls) = l" "step_state (last ?ps) = r"
    using assms(2,3,4,5) by (simp_all add: debug_agrees_with_evaluate_def)
  have d0: "debug vm ?s0 Phase_unlocking = (?us, snd (debug vm ?s0 Phase_unlocking))"
    by simp
  have d1: "debug vm ?s1 Phase_locking = (?ls, stack u)"
    using assms(1) st1 by (simp add: works_on_a_clone_def prod_eq_iff)
  have d2: "debug vm ?s2 Phase_p2sh = (?ps, snd (debug vm ?s2 Phase_p2sh))"
    by simp
  have same: "with_last_stack ?us (stack u) = ?us"
    using with_last_stack_same [OF ne(1)] lst(1) by simp
  have "debugBitcoinCashAuthenticationProgram vm program =
     (if error u \<noteq> None then Some ?us
      else if error l \<noteq> None \<or> \<not> isPayToScriptHash (lockingScript program)
      then Some (?us @ ?ls)
      else if \<not> isPushOnly (operations u)
      then Some (?us @ ?ls @
             [\<lparr> asm = P2shError_asm, description = P2shError_pushOnly, step_state = l \<rparr>])
      else if stack u = []
      then Some (?us @ ?ls @
             [\<lparr> asm = P2shError_asm, description = P2shError_emptyStack, step_state = l \<rparr>])
      else Some (?us @ ?ls @ ?ps))"
    unfolding debug_pipeline_unfold [OF d0 ne(1) lst(1) [symmetric] d1 ne(2) lst(2) [symmetric] d2 ne(3)]
      same by (rule refl)
  then show "\<exists>us ls ps. ls \<noteq> [] \<and> ps \<noteq> [] \<and> us \<noteq> []
      \<and> step_state (last us) = u \<and> step_state (last ls) = l \<and> step_state (last ps) = r
      \<and> debugBitcoinCashAuthenticationProgram vm program =
     (if error u \<noteq> None then Some us
      else if error l \<noteq> None \<or> \<not> isPayToScriptHash (lockingScript program)
      then Some (us @ ls)
      else if \<not> isPushOnly (operations u)
      then Some (us @ ls @
             [\<lparr> asm = P2shError_asm, description = P2shError_pushOnly, step_state = l \<rparr>])
      else if stack u = []
      then Some (us @ ls @
             [\<lparr> asm = P2shError_asm, description = P2shError_emptyStack, step_state = l \<rparr>])
      else Some (us @ ls @ ps))"
    using ne lst by blast
qed

subsection \<open>The stand-in machine and the sample programs\<close>

lemma sample_vm_clone: "works_on_a_clone sample_vm"
  by (simp add: works_on_a_clone_def sample_vm_def)

lemma sample_vm_agrees: "debug_agrees_with_evaluate sample_vm"
  by (simp add: debug_agrees_with_evaluate_def sample_vm_def)

lemma p2sh_locking_shape: "isPayToScriptHash p2sh_locking"
  by (simp add: isPayToScriptHash_def p2sh_locking_def js_index_def nth_append)

lemma not_push_only: "\<not> isPushOnly [OP_HASH160]"
  by (simp add: isPushOnly_def OP_HASH160_def OP_16_def)

lemma push_only_nil: "isPushOnly []"
  by (simp add: isPushOnly_def)

lemma sample_vm_evaluate: "fst (evaluate sample_vm s) = sample_evaluate s"
  by (simp add: sample_vm_def)

lemma sample_evaluate_fields:
  "error (sample_evaluate s) = error s"
  "operations (sample_evaluate s) = script s"
  "script (sample_evaluate s) = script s"
  "stack (sample_evaluate s) = (if script s = [] then stack s else stack s @ [script s])"
  by (simp_all add: sample_evaluate_def)

lemma create_fields:
  "error (createBitcoinCashProgramState program scr stk) = None"
  "script (createBitcoinCashProgramState program scr stk) = scr"
  "stack (createBitcoinCashProgramState program scr stk) = stk"
  by (simp_all add: createBitcoinCashProgramState_def)

lemma sample_program_scripts:
  "unlockingScript (sample_program unlocking locking) = unlocking"
  "lockingScript (sample_program unlocking locking) = locking"
  by (simp_all add: sample_program_def)

lemmas sample_run = push_only_nil sample_vm_evaluate sample_evaluate_fields create_fields
  sample_program_scripts p2sh_locking_shape not_push_only

section \<open>The P2SH hand-off\<close>






text \<open>
  The two kinds of machine, in general. On a machine that works in place, the array read
  after the locking phase holds the locking phase's terminal stack, and the P2SH phase
  takes its script from there.
\<close>

lemma p2sh_phase_on_shared_stack:
  assumes "\<forall>s. snd (evaluate vm s) = stack (fst (evaluate vm s))"
    "isPayToScriptHash (lockingScript program)"
    "u = fst (evaluate vm (createBitcoinCashProgramState program (unlockingScript program) []))"
    "error u = None"
    "l = fst (evaluate vm (createBitcoinCashProgramState program (lockingScript program) (stack u)))"
    "stack l \<noteq> []"
  shows "evaluateBitcoinCashAuthenticationProgram vm program
           = Some (fst (evaluate vm
               (createBitcoinCashProgramState program (last (stack l)) (butlast (stack l)))))"
proof -
  let ?s0 = "createBitcoinCashProgramState program (unlockingScript program) []"
  let ?s1 = "createBitcoinCashProgramState program (lockingScript program) (stack u)"
  have e0: "evaluate vm ?s0 = (u, snd (evaluate vm ?s0))"
    using assms(3) by simp
  have e1: "evaluate vm ?s1 = (l, stack l)"
    using assms(1,5) by (simp add: prod_eq_iff)
  show ?thesis
    using evaluate_pipeline_unfold [OF e0 e1] assms(2,4,6) by simp
qed

text \<open>
  On a machine that leaves the stack array of the state it is given untouched, the P2SH
  phase runs the topmost element of the unlocking phase's terminal stack on the rest.
\<close>

lemma p2sh_phase_on_a_clone:
  assumes "works_on_a_clone vm" "isPayToScriptHash (lockingScript program)"
    "u = fst (evaluate vm (createBitcoinCashProgramState program (unlockingScript program) []))"
    "error u = None" "stack u \<noteq> []"
  shows "evaluateBitcoinCashAuthenticationProgram vm program
           = Some (fst (evaluate vm
               (createBitcoinCashProgramState program (last (stack u)) (butlast (stack u)))))"
proof -
  let ?s0 = "createBitcoinCashProgramState program (unlockingScript program) []"
  let ?s1 = "createBitcoinCashProgramState program (lockingScript program) (stack u)"
  have e0: "evaluate vm ?s0 = (u, snd (evaluate vm ?s0))"
    using assms(3) by simp
  have "snd (evaluate vm ?s1) = stack ?s1"
    using assms(1) by (simp add: works_on_a_clone_def)
  then have e1: "evaluate vm ?s1 = (fst (evaluate vm ?s1), stack u)"
    by (simp add: createBitcoinCashProgramState_def prod_eq_iff)
  show ?thesis
    using evaluate_pipeline_unfold [OF e0 e1] assms(2,4,5) by simp
qed

section \<open>The P2SH prerequisites\<close>

text \<open>
  C3: the claim is that, for a P2SH locking script, an unlocking phase that recorded an
  opcode \<open>\<ge> OP_16\<close> makes the program fail with \<open>p2shPushOnly\<close> and an empty unlocking
  stack makes it fail with \<open>p2shEmptyStack\<close>, in the debug and in the evaluate pipeline.
  The debug pipeline ends with the marker step of the failed prerequisite (on the locking
  phase's result). The evaluate pipeline tests neither: its result does not depend on
  the recorded operations, it is the terminal state of the P2SH phase whenever the
  unlocking stack is not empty; and on an empty unlocking stack the machine is called
  with the \<open>undefined\<close> that the pop returned as its script.
\<close>

theorem p2sh_prerequisites_checked_by_debug_only:
  assumes "works_on_a_clone vm" "debug_agrees_with_evaluate vm"
    "isPayToScriptHash (lockingScript program)"
    "u = fst (evaluate vm (createBitcoinCashProgramState program (unlockingScript program) []))"
    "error u = None"
    "l = fst (evaluate vm (createBitcoinCashProgramState program (lockingScript program) (stack u)))"
    "error l = None"
  shows "(\<not> isPushOnly (operations u) \<longrightarrow>
            (\<exists>steps. debugBitcoinCashAuthenticationProgram vm program = Some steps
               \<and> last steps = \<lparr> asm = P2shError_asm, description = P2shError_pushOnly,
                                step_state = l \<rparr>))
       \<and> (isPushOnly (operations u) \<and> stack u = [] \<longrightarrow>
            (\<exists>steps. debugBitcoinCashAuthenticationProgram vm program = Some steps
               \<and> last steps = \<lparr> asm = P2shError_asm, description = P2shError_emptyStack,
                                step_state = l \<rparr>))
       \<and> evaluateBitcoinCashAuthenticationProgram vm program
           = (if stack u = [] then None
              else Some (fst (evaluate vm (createBitcoinCashProgramState program
                               (last (stack u)) (butlast (stack u))))))"
  using pipelines_on_agreeing_clone [OF assms(1,2,4,6) refl] assms(3,5,7)
  by auto

text \<open>
  An unlocking script that records \<open>OP_HASH160\<close> and leaves one element: the debug
  pipeline ends with the push-only marker, the evaluate pipeline returns the error-free
  result of the P2SH phase. An empty unlocking script: the debug pipeline ends with the
  empty-stack marker, the evaluate pipeline calls the machine on an undefined script.
\<close>

theorem p2sh_prerequisites_checked_by_debug_only_witness:
  "map_option last
      (debugBitcoinCashAuthenticationProgram sample_vm (sample_program [OP_HASH160] p2sh_locking))
     = Some \<lparr> asm = P2shError_asm, description = P2shError_pushOnly,
              step_state = sample_evaluate (createBitcoinCashProgramState
                (sample_program [OP_HASH160] p2sh_locking) p2sh_locking [[OP_HASH160]]) \<rparr>
   \<and> evaluateBitcoinCashAuthenticationProgram sample_vm (sample_program [OP_HASH160] p2sh_locking)
     = Some (sample_evaluate (createBitcoinCashProgramState
                (sample_program [OP_HASH160] p2sh_locking) [OP_HASH160] []))
   \<and> error (sample_evaluate (createBitcoinCashProgramState
                (sample_program [OP_HASH160] p2sh_locking) [OP_HASH160] [])) = None
   \<and> map_option last
      (debugBitcoinCashAuthenticationProgram sample_vm (sample_program [] p2sh_locking))
     = Some \<lparr> asm = P2shError_asm, description = P2shError_emptyStack,
              step_state = sample_evaluate (createBitcoinCashProgramState
                (sample_program [] p2sh_locking) p2sh_locking []) \<rparr>
   \<and> evaluateBitcoinCashAuthenticationProgram sample_vm (sample_program [] p2sh_locking) = None"
  using p2sh_prerequisites_checked_by_debug_only [OF sample_vm_clone sample_vm_agrees _ refl _ refl,
      of "sample_program [OP_HASH160] p2sh_locking"]
    p2sh_prerequisites_checked_by_debug_only [OF sample_vm_clone sample_vm_agrees _ refl _ refl,
      of "sample_program [] p2sh_locking"]
  by (auto simp add: sample_run)

section \<open>Debug and evaluate\<close>

text \<open>
  C6: the claim is that the state returned by the evaluate pipeline is the state of the
  last step of the debug pipeline, for every program. On a machine whose own debugger
  and evaluator agree, the two pipelines end on the same state when the unlocking phase
  fails, when the locking script is not P2SH, and when the P2SH phase runs in both. For
  a P2SH locking script they part whenever the debug pipeline stops before the P2SH
  phase (the locking phase failed, the unlocking phase was not push-only, or its stack
  was empty): the debug pipeline ends on the locking result \<open>l\<close>, the evaluate pipeline
  on the P2SH result \<open>r\<close> (or on a call with an undefined script).
\<close>

theorem debug_and_evaluate_terminal_states:
  assumes "works_on_a_clone vm" "debug_agrees_with_evaluate vm"
    "u = fst (evaluate vm (createBitcoinCashProgramState program (unlockingScript program) []))"
    "l = fst (evaluate vm (createBitcoinCashProgramState program (lockingScript program) (stack u)))"
    "r = fst (evaluate vm
           (createBitcoinCashProgramState program (last (stack u)) (butlast (stack u))))"
  shows "map_option (\<lambda>steps. step_state (last steps))
           (debugBitcoinCashAuthenticationProgram vm program)
         = Some (if error u \<noteq> None then u
                 else if error l \<noteq> None \<or> \<not> isPayToScriptHash (lockingScript program)
                         \<or> \<not> isPushOnly (operations u) \<or> stack u = [] then l
                 else r)
       \<and> evaluateBitcoinCashAuthenticationProgram vm program
         = (if error u \<noteq> None then Some u
            else if \<not> isPayToScriptHash (lockingScript program) then Some l
            else if stack u = [] then None
            else Some r)"
  using pipelines_on_agreeing_clone [OF assms]
  by auto

theorem debug_and_evaluate_terminal_states_witness:
  "map_option (\<lambda>steps. step_state (last steps))
      (debugBitcoinCashAuthenticationProgram sample_vm (sample_program [OP_HASH160] p2sh_locking))
     = Some (sample_evaluate (createBitcoinCashProgramState
               (sample_program [OP_HASH160] p2sh_locking) p2sh_locking [[OP_HASH160]]))
   \<and> evaluateBitcoinCashAuthenticationProgram sample_vm
        (sample_program [OP_HASH160] p2sh_locking)
     = Some (sample_evaluate (createBitcoinCashProgramState
               (sample_program [OP_HASH160] p2sh_locking) [OP_HASH160] []))
   \<and> script (sample_evaluate (createBitcoinCashProgramState
               (sample_program [OP_HASH160] p2sh_locking) p2sh_locking [[OP_HASH160]]))
       = p2sh_locking
   \<and> script (sample_evaluate (createBitcoinCashProgramState
               (sample_program [OP_HASH160] p2sh_locking) [OP_HASH160] []))
       = [OP_HASH160]"
  using debug_and_evaluate_terminal_states [OF sample_vm_clone sample_vm_agrees refl refl refl,
      of "sample_program [OP_HASH160] p2sh_locking"]
  by (simp add: sample_run)

end
